theory Spec2Isabelle
  imports Complex_Main
begin

section \<open>fg-calendar-reminder: a shallow embedding of \<^verbatim>\<open>fg-calendar-reminder.py\<close>\<close>

text \<open>
  The program is one Python module. Its decision logic lives in two functions:
  \<^verbatim>\<open>monitor_events\<close> (one cycle: quiet hours, fetch, matching, notification) and
  \<^verbatim>\<open>create_daemon\<close> (the loop that runs a cycle and sleeps to the next minute).
  Everything the module reads from outside (the clock, the calendar service, the ISO
  parser of the standard library) is an input of the model; everything it does to the
  outside (building the service, the list request, launching a process, sleeping, a log
  record) is an entry of a trace.
\<close>

subsection \<open>Settings (module constants, lines 32--39)\<close>

record settings =
  NOTIFY_TIME_MS :: string
  MINUTES_LEFT :: "int list"
  SLEEP_HOURS :: "(int \<times> int) list"
  AUDIO_PLAY_CMD :: "string list"

definition module_settings :: settings where
  "module_settings =
     \<lparr> NOTIFY_TIME_MS = ''50000'',
       MINUTES_LEFT = [1, 5, 10],
       SLEEP_HOURS = [(20, 6)],
       AUDIO_PLAY_CMD = [''play'', ''5glasses.ogg''] \<rparr>"

subsection \<open>Naive datetimes and timedeltas\<close>

text \<open>
  A naive \<^verbatim>\<open>datetime\<close> is a wall-clock reading with microsecond resolution on the
  proleptic Gregorian calendar, without leap seconds: it is determined by the number of
  microseconds since midnight of a reference day, and every integer is such a reading.
  The fields the program reads, \<^verbatim>\<open>.hour\<close> and \<^verbatim>\<open>.second\<close>, are digits of that count.
\<close>

type_synonym naive_datetime = int

definition hour_of :: "naive_datetime \<Rightarrow> int" where
  "hour_of d = (d div 3600000000) mod 24"

definition second_of :: "naive_datetime \<Rightarrow> int" where
  "second_of d = (d div 1000000) mod 60"

text \<open>
  A parsed datetime may carry a UTC offset (in minutes); \<^verbatim>\<open>replace(tzinfo=None)\<close>
  keeps the wall-clock fields and drops the offset.
\<close>

record datetime =
  wall :: naive_datetime
  tzinfo :: "int option"

definition replace_tzinfo_None :: "datetime \<Rightarrow> naive_datetime" where
  "replace_tzinfo_None d = wall (d\<lparr>tzinfo := None\<rparr>)"

text \<open>
  Subtracting two naive datetimes gives a \<^verbatim>\<open>timedelta\<close>, which Python keeps
  normalised: \<^verbatim>\<open>0 <= microseconds < 1000000\<close>, \<^verbatim>\<open>0 <= seconds < 86400\<close>, and
  the sign is carried by \<^verbatim>\<open>days\<close> alone.
\<close>

record timedelta =
  days :: int
  seconds :: int
  microseconds :: int

definition datetime_sub :: "naive_datetime \<Rightarrow> naive_datetime \<Rightarrow> timedelta" where
  "datetime_sub a b =
     (let us = a - b
      in \<lparr> days = us div 86400000000,
           seconds = (us div 1000000) mod 86400,
           microseconds = us mod 1000000 \<rparr>)"

subsection \<open>\<^verbatim>\<open>round\<close> (line 142)\<close>

text \<open>
  Python 3 \<^verbatim>\<open>round(x)\<close> returns the integer nearest to \<open>x\<close>, and the even one of
  the two when \<open>x\<close> lies exactly between them. The argument on line 142 is
  \<^verbatim>\<open>seconds / 60\<close> with \<open>0 \<le> seconds < 86400\<close>: a quotient that is either a
  half-integer, which a double holds exactly, or at least \<open>1/60\<close> away from every
  half-integer, much farther than the error of one floating-point division. So
  rounding the double and rounding the exact quotient agree, and the model rounds the
  exact quotient.
\<close>

definition py_round :: "rat \<Rightarrow> int" where
  "py_round x =
     (let f = \<lfloor>x\<rfloor>; d = x - of_int f
      in if d < 1 / 2 then f
         else if 1 / 2 < d then f + 1
         else if even f then f else f + 1)"

definition mins_left_of :: "naive_datetime \<Rightarrow> naive_datetime \<Rightarrow> int" where
  "mins_left_of start_naive now_datetime =
     py_round (of_int (seconds (datetime_sub start_naive now_datetime)) / 60)"

subsection \<open>Sleep hours (lines 114--124)\<close>

text \<open>
  The loop over \<^verbatim>\<open>SLEEP_HOURS\<close> returns from \<^verbatim>\<open>monitor_events\<close> at the first
  pair that sets \<^verbatim>\<open>skip\<close>; the function below is true exactly when it returns there.
\<close>

fun in_sleep_hours :: "int \<Rightarrow> (int \<times> int) list \<Rightarrow> bool" where
  "in_sleep_hours cur_hour [] = False"
| "in_sleep_hours cur_hour ((start_h, end_h) # rest) =
     (let skip =
        (if end_h < start_h \<and> (start_h \<le> cur_hour \<or> cur_hour \<le> end_h) then True
         else if start_h \<le> cur_hour \<and> cur_hour \<le> end_h then True
         else False)
      in if skip then True else in_sleep_hours cur_hour rest)"

text \<open>The quiet-hours policy in the words of the specification (section 4.1).\<close>

definition spec_window_matches :: "int \<Rightarrow> int \<times> int \<Rightarrow> bool" where
  "spec_window_matches h w =
     (case w of (s, e) \<Rightarrow>
        if s \<le> e then s \<le> h \<and> h \<le> e else s \<le> h \<or> h \<le> e)"

definition spec_isQuiet :: "int \<Rightarrow> (int \<times> int) list \<Rightarrow> bool" where
  "spec_isQuiet h windows = (\<exists>w \<in> set windows. spec_window_matches h w)"

subsection \<open>Exceptions, events, alerts\<close>

text \<open>
  An exception is a value. \<^verbatim>\<open>create_daemon\<close> tells three kinds apart:
  \<^verbatim>\<open>SystemExit\<close>, the subclasses of \<^verbatim>\<open>Exception\<close> (kept with the class name and
  the text \<^verbatim>\<open>str(ex)\<close>), and the other subclasses of \<^verbatim>\<open>BaseException\<close>, which no
  handler of the module catches.
\<close>

datatype pyexc =
    SystemExit string
  | Exception string string
  | KeyboardInterrupt

text \<open>
  An event is the dictionary the calendar service returns; the program reads
  \<^verbatim>\<open>event['summary']\<close> and the keys \<^verbatim>\<open>dateTime\<close> and \<^verbatim>\<open>date\<close> of
  \<^verbatim>\<open>event['start']\<close>. A key that is absent is \<open>None\<close>.
\<close>

record event =
  ev_summary :: "string option"
  ev_dateTime :: "string option"
  ev_date :: "string option"

text \<open>Class \<^verbatim>\<open>Alert\<close> (lines 50--60). The field \<^verbatim>\<open>date\<close> holds the start string as received.\<close>

record alert =
  summary :: string
  date :: string
  minutes_left :: int

subsection \<open>String formatting\<close>

definition digit_char :: "nat \<Rightarrow> char" where
  "digit_char n = ''0123456789'' ! n"

fun str_nat :: "nat \<Rightarrow> string" where
  "str_nat n =
     (if n < 10 then [digit_char n] else str_nat (n div 10) @ [digit_char (n mod 10)])"

declare str_nat.simps [simp del]

text \<open>The conversion \<^verbatim>\<open>%d\<close> of an integer.\<close>

definition str_int :: "int \<Rightarrow> string" where
  "str_int i = (if i < 0 then ''-'' @ str_nat (nat (- i)) else str_nat (nat i))"

text \<open>\<^verbatim>\<open>Alert.__str__\<close> (lines 59--60).\<close>

definition alert_str :: "alert \<Rightarrow> string" where
  "alert_str a =
     ''In '' @ str_int (minutes_left a) @ '' minutes ['' @ date a @ ''] -> '' @ summary a"

definition newline :: string where
  "newline = [CHR 0x0A]"

text \<open>\<^verbatim>\<open>sep.join(xs)\<close>.\<close>

fun join :: "string \<Rightarrow> string list \<Rightarrow> string" where
  "join sep [] = []"
| "join sep [x] = x"
| "join sep (x # y # ys) = x @ sep @ join sep (y # ys)"


subsection \<open>The trace of effects\<close>

text \<open>
  The logger is configured at level \<^verbatim>\<open>ERROR\<close> (line 45) and the module logs at four
  levels. The trace keeps the calls of \<^verbatim>\<open>create_daemon\<close> with their level; the
  \<^verbatim>\<open>LOGGER.debug\<close> calls of \<^verbatim>\<open>monitor_events\<close> emit nothing at that level and are
  left out, except that the evaluation of their arguments can raise (line 140).
  The calls to the outside (\<^verbatim>\<open>create_service()\<close>, the list request, a process launch
  \<^verbatim>\<open>subprocess.Popen(cmd)\<close>) are recorded when they are made, whether they return or
  raise. A launch raises when the operating system cannot start the command
  (\<^verbatim>\<open>FileNotFoundError\<close> for an executable that is not installed) or the command is
  not one (\<^verbatim>\<open>ValueError\<close> for a NUL character in an argument); what it does for a
  given command is an input of the cycle.
\<close>

datatype log_level = ERROR | WARNING | INFO

datatype action =
    CreateService
  | ListEvents
  | Popen "string list"
  | Log log_level string
  | Sleep int

subsection \<open>Matching events (lines 136--144)\<close>

text \<open>
  The loop over \<^verbatim>\<open>events\<close>, with the list \<^verbatim>\<open>alerts\<close> it appends to. The result is
  the list at the end of the loop and the exception that ended it, if one did:
  \<^verbatim>\<open>event['summary']\<close> raises \<^verbatim>\<open>KeyError\<close> on line 140 when the key is absent,
  \<^verbatim>\<open>fromisoformat\<close> raises \<^verbatim>\<open>TypeError\<close> when neither start key is present and
  whatever the parser raises on a string it rejects. The parser is the standard
  library's and is a parameter.
\<close>

type_synonym parser = "string \<Rightarrow> pyexc + datetime"

definition event_start :: "event \<Rightarrow> string option" where
  "event_start ev = (case ev_dateTime ev of Some s \<Rightarrow> Some s | None \<Rightarrow> ev_date ev)"

definition key_error_summary :: pyexc where
  "key_error_summary = Exception ''KeyError'' ([CHR 0x27] @ ''summary'' @ [CHR 0x27])"

definition type_error_fromisoformat :: pyexc where
  "type_error_fromisoformat = Exception ''TypeError'' ''fromisoformat: argument must be str''"

fun alerts_loop ::
  "settings \<Rightarrow> parser \<Rightarrow> naive_datetime \<Rightarrow> event list \<Rightarrow> alert list
     \<Rightarrow> alert list \<times> pyexc option" where
  "alerts_loop cfg fromisoformat now_datetime [] alerts = (alerts, None)"
| "alerts_loop cfg fromisoformat now_datetime (ev # events) alerts =
     (case ev_summary ev of
        None \<Rightarrow> (alerts, Some key_error_summary)
      | Some summ \<Rightarrow>
          (case event_start ev of
             None \<Rightarrow> (alerts, Some type_error_fromisoformat)
           | Some start \<Rightarrow>
               (case fromisoformat start of
                  Inl ex \<Rightarrow> (alerts, Some ex)
                | Inr start_datetime \<Rightarrow>
                    (let mins_left = mins_left_of (replace_tzinfo_None start_datetime) now_datetime
                     in if mins_left \<in> set (MINUTES_LEFT cfg)
                        then alerts_loop cfg fromisoformat now_datetime events
                               (alerts @ [\<lparr> summary = summ, date = start, minutes_left = mins_left \<rparr>])
                        else alerts_loop cfg fromisoformat now_datetime events alerts))))"

subsection \<open>Displaying the reminder (lines 146--162)\<close>

text \<open>
  The command of the \<^verbatim>\<open>notify-send\<close> launch (line 155 for one alert, lines 157--159 for
  more).
\<close>

definition notify_cmd :: "settings \<Rightarrow> alert list \<Rightarrow> string list" where
  "notify_cmd cfg alerts =
     (if length alerts = 1
      then [''notify-send'', ''-t'', NOTIFY_TIME_MS cfg,
            ''Upcoming event: '' @ take 50 (summary (alerts ! 0)),
            alert_str (alerts ! 0)]
      else [''notify-send'', ''-t'', NOTIFY_TIME_MS cfg,
            ''Upcoming events: '' @ str_int (int (length alerts)),
            join newline (map alert_str alerts)])"

text \<open>
  \<open>popen cmd\<close> is the exception \<^verbatim>\<open>subprocess.Popen(cmd)\<close> raises, \<open>None\<close> when it
  returns. Nothing in \<^verbatim>\<open>monitor_events\<close> catches it: when the \<^verbatim>\<open>notify-send\<close>
  launch raises, the audio launch of line 162 is not reached. The result is the trace
  and the exception raised, if any.
\<close>

type_synonym launcher = "string list \<Rightarrow> pyexc option"

definition dispatch :: "settings \<Rightarrow> launcher \<Rightarrow> alert list \<Rightarrow> action list \<times> pyexc option" where
  "dispatch cfg popen alerts =
     (if alerts = [] then ([], None)
      else
        (case popen (notify_cmd cfg alerts) of
           Some ex \<Rightarrow> ([Popen (notify_cmd cfg alerts)], Some ex)
         | None \<Rightarrow>
             ([Popen (notify_cmd cfg alerts), Popen (AUDIO_PLAY_CMD cfg)],
              popen (AUDIO_PLAY_CMD cfg))))"

subsection \<open>One cycle: \<^verbatim>\<open>monitor_events\<close> (lines 102--162)\<close>

text \<open>
  What one cycle reads from outside: whether \<^verbatim>\<open>create_service()\<close> raises, the local
  clock (line 112), the outcome of the list request (an exception, or the \<^verbatim>\<open>items\<close>
  entry of the returned dictionary, absent when there is none), the clock reading
  \<^verbatim>\<open>create_daemon\<close> takes after the cycle (line 88), and what a process launch does
  during the cycle.
\<close>

record cycle_input =
  service_exc :: "pyexc option"
  now_datetime :: naive_datetime
  execute_result :: "pyexc + event list option"
  clock_after :: naive_datetime
  popen_exc :: launcher

definition get_items :: "event list option \<Rightarrow> event list" where
  "get_items items = (case items of None \<Rightarrow> [] | Some evs \<Rightarrow> evs)"

text \<open>The result of a cycle is its trace and the exception it raised, if any.\<close>

definition monitor_events :: "settings \<Rightarrow> parser \<Rightarrow> cycle_input \<Rightarrow> action list \<times> pyexc option" where
  "monitor_events cfg fromisoformat c =
     (case service_exc c of
        Some ex \<Rightarrow> ([CreateService], Some ex)
      | None \<Rightarrow>
          if in_sleep_hours (hour_of (now_datetime c)) (SLEEP_HOURS cfg)
          then ([CreateService], None)
          else
            (case execute_result c of
               Inl ex \<Rightarrow> ([CreateService, ListEvents], Some ex)
             | Inr events_result \<Rightarrow>
                 (case alerts_loop cfg fromisoformat (now_datetime c) (get_items events_result) [] of
                    (alerts, Some ex) \<Rightarrow> ([CreateService, ListEvents], Some ex)
                  | (alerts, None) \<Rightarrow>
                      (case dispatch cfg (popen_exc c) alerts of
                         (tr, raised) \<Rightarrow> ([CreateService, ListEvents] @ tr, raised)))))"

subsection \<open>The loop: \<^verbatim>\<open>create_daemon\<close> (lines 85--99)\<close>

text \<open>
  The part of \<^verbatim>\<open>create_daemon\<close> that runs in the forked child. The loop has no exit
  of its own: it ends when a cycle raises. The model runs it over the inputs of
  finitely many cycles and answers \<open>Running\<close> when they are used up with the loop still
  going; \<open>Returned r\<close> is the \<^verbatim>\<open>return r\<close> of the function, and \<open>Propagated ex\<close> an
  exception neither handler catches.
\<close>

datatype outcome = Running | Returned int | Propagated pyexc

definition wait_time_of :: "naive_datetime \<Rightarrow> int" where
  "wait_time_of clock = 60 - second_of clock"

fun create_daemon :: "settings \<Rightarrow> parser \<Rightarrow> cycle_input list \<Rightarrow> action list \<times> outcome" where
  "create_daemon cfg fromisoformat [] = ([], Running)"
| "create_daemon cfg fromisoformat (c # cs) =
     (case monitor_events cfg fromisoformat c of
        (tr, None) \<Rightarrow>
          (let wait_time = wait_time_of (clock_after c);
               (tr', out) = create_daemon cfg fromisoformat cs
           in (tr @ [Sleep wait_time] @ tr', out))
      | (tr, Some (SystemExit reason)) \<Rightarrow>
          (tr @ [Log WARNING (''Exiting. Reason: '' @ reason),
                 Log INFO ''Exiting fg-calendar-reminder''], Returned 0)
      | (tr, Some (Exception cls msg)) \<Rightarrow>
          (tr @ [Log ERROR (''Unexpected exception: '' @ msg)], Returned 1)
      | (tr, Some KeyboardInterrupt) \<Rightarrow> (tr, Propagated KeyboardInterrupt))"

subsection \<open>Concrete inputs\<close>

text \<open>
  Helpers for writing concrete runs: the clock reading of a day number and a time of
  day, a parser given by a finite table, which rejects every other string with
  \<^verbatim>\<open>ValueError\<close>, a system on which every launch returns, and a system on which
  one executable is not installed.
\<close>

definition clock_reading :: "int \<Rightarrow> int \<Rightarrow> int \<Rightarrow> int \<Rightarrow> int \<Rightarrow> naive_datetime" where
  "clock_reading day h m s us = (((day * 24 + h) * 60 + m) * 60 + s) * 1000000 + us"

definition table_parser :: "(string \<times> datetime) list \<Rightarrow> parser" where
  "table_parser tbl s =
     (case map_of tbl s of
        Some d \<Rightarrow> Inr d
      | None \<Rightarrow> Inl (Exception ''ValueError'' (''Invalid isoformat string: '' @ s)))"

text \<open>
  Events with a title and a \<^verbatim>\<open>dateTime\<close> start, and the readings of the start strings
  used below; day 0 is 2019-05-01.
\<close>

definition all_installed :: launcher where
  "all_installed cmd = None"

definition file_not_found :: "string \<Rightarrow> pyexc" where
  "file_not_found name =
     Exception ''FileNotFoundError''
       (''[Errno 2] No such file or directory: '' @ [CHR 0x27] @ name @ [CHR 0x27])"

definition not_installed :: "string \<Rightarrow> launcher" where
  "not_installed name cmd =
     (case cmd of
        [] \<Rightarrow> None
      | exe # args \<Rightarrow> if exe = name then Some (file_not_found name) else None)"

definition timed_event :: "string \<Rightarrow> string \<Rightarrow> event" where
  "timed_event title start =
     \<lparr> ev_summary = Some title, ev_dateTime = Some start, ev_date = None \<rparr>"

definition example_table :: "(string \<times> datetime) list" where
  "example_table =
     [(''2019-05-01T12:10:00'', \<lparr> wall = clock_reading 0 12 10 0 0, tzinfo = None \<rparr>),
      (''2019-05-01T12:15:00-03:00'', \<lparr> wall = clock_reading 0 12 15 0 0, tzinfo = Some (- 180) \<rparr>),
      (''2019-05-02T12:01:30'', \<lparr> wall = clock_reading 1 12 1 30 0, tzinfo = None \<rparr>),
      (''2019-05-02T12:05:00'', \<lparr> wall = clock_reading 1 12 5 0 0, tzinfo = None \<rparr>)]"

subsection \<open>The notification text in the words of the specification\<close>


section \<open>Properties\<close>

subsection \<open>Quiet hours\<close>

lemma in_sleep_hours_Cons:
  "in_sleep_hours h (w # ws) = (spec_window_matches h w \<or> in_sleep_hours h ws)"
proof (cases w)
  case (Pair s e)
  then show ?thesis
    by (cases "s \<le> e") (auto simp: spec_window_matches_def)
qed

lemma in_sleep_hours_iff:
  "in_sleep_hours h ws = (\<exists>w \<in> set ws. spec_window_matches h w)"
proof (induction ws)
  case Nil
  show ?case by simp
next
  case (Cons w ws)
  show ?case
    unfolding in_sleep_hours_Cons Cons.IH by simp
qed

subsection \<open>Minutes left\<close>

lemma py_round_div60:
  "py_round (of_int s / 60) =
     (let q = s div 60; r = s mod 60
      in if r < 30 then q else if 30 < r then q + 1 else if even q then q else q + 1)"
proof -
  define q where "q = s div 60"
  define r where "r = s mod 60"
  have s: "s = q * 60 + r" by (simp add: q_def r_def)
  have fl: "\<lfloor>(of_int s :: rat) / 60\<rfloor> = q"
    using floor_divide_of_int_eq [of s 60, where ?'a = rat] by (simp add: q_def)
  have d: "(of_int s :: rat) / 60 - of_int q = of_int r / 60"
    by (simp add: s field_simps)
  have lt: "((of_int r :: rat) / 60 < 1 / 2) = (r < 30)"
  proof -
    have "((of_int r :: rat) / 60 < 1 / 2) = ((of_int r :: rat) < of_int 30)"
      by (simp add: field_simps)
    then show ?thesis by (simp only: of_int_less_iff)
  qed
  have gt: "(1 / 2 < (of_int r :: rat) / 60) = (30 < r)"
  proof -
    have "(1 / 2 < (of_int r :: rat) / 60) = ((of_int 30 :: rat) < of_int r)"
      by (simp add: field_simps)
    then show ?thesis by (simp only: of_int_less_iff)
  qed
  show ?thesis
    unfolding py_round_def fl d Let_def lt gt q_def [symmetric] r_def [symmetric] ..
qed

lemma seconds_within_day:
  assumes "0 \<le> \<Delta>" "\<Delta> < 86400" "0 \<le> u" "u < 1000000"
  shows "seconds (datetime_sub (now + (\<Delta> * 1000000 + u)) now) = \<Delta>"
proof -
  have "(\<Delta> * 1000000 + u) div 1000000 = \<Delta>"
    using assms by simp
  moreover have "\<Delta> mod 86400 = \<Delta>"
    using assms by simp
  ultimately show ?thesis
    by (simp add: datetime_sub_def)
qed

lemma seconds_any_day:
  assumes "0 \<le> u" "u < 1000000"
  shows "seconds (datetime_sub (now + (\<Delta> * 1000000 + u)) now) = \<Delta> mod 86400"
proof -
  have "(\<Delta> * 1000000 + u) div 1000000 = \<Delta>"
    using assms by simp
  then show ?thesis
    by (simp add: datetime_sub_def)
qed

lemma mins_left_within_day:
  assumes "0 \<le> \<Delta>" "\<Delta> < 86400" "0 \<le> u" "u < 1000000"
  shows "mins_left_of (now + (\<Delta> * 1000000 + u)) now = py_round (of_int \<Delta> / 60)"
  unfolding mins_left_of_def seconds_within_day [OF assms] ..

lemma mins_left_tie_within_day:
  assumes "0 \<le> k" "k < 1440"
  shows "mins_left_of (now + ((60 * k + 30) * 1000000)) now = (if even k then k else k + 1)"
proof -
  have "mins_left_of (now + ((60 * k + 30) * 1000000 + 0)) now = py_round (of_int (60 * k + 30) / 60)"
    using assms by (intro mins_left_within_day) auto
  moreover have "(60 * k + 30) div 60 = k" "(60 * k + 30) mod 60 = 30"
    by simp_all
  ultimately show ?thesis
    by (simp add: py_round_div60 del: of_int_add of_int_mult)
qed

subsection \<open>Matching\<close>

lemma alerts_loop_invariant:
  assumes "\<forall>a \<in> set alerts. minutes_left a \<in> set (MINUTES_LEFT cfg)"
  shows "\<forall>a \<in> set (fst (alerts_loop cfg p now events alerts)).
           minutes_left a \<in> set (MINUTES_LEFT cfg)"
  using assms
proof (induction events arbitrary: alerts)
  case Nil
  then show ?case by simp
next
  case (Cons ev events)
  show ?case
  proof (cases "ev_summary ev")
    case None
    with Cons.prems show ?thesis by simp
  next
    case (Some summ)
    note summ = this
    show ?thesis
    proof (cases "event_start ev")
      case None
      with summ Cons.prems show ?thesis by simp
    next
      case (Some start)
      note start = this
      show ?thesis
      proof (cases "p start")
        case (Inl ex)
        with summ start Cons.prems show ?thesis by simp
      next
        case (Inr d)
        show ?thesis
        proof (cases "mins_left_of (replace_tzinfo_None d) now \<in> set (MINUTES_LEFT cfg)")
          case True
          have "\<forall>a \<in> set (alerts @ [\<lparr> summary = summ, date = start,
                   minutes_left = mins_left_of (replace_tzinfo_None d) now \<rparr>]).
                  minutes_left a \<in> set (MINUTES_LEFT cfg)"
            using True Cons.prems by simp
          from Cons.IH [OF this] summ start Inr True show ?thesis
            by (simp add: Let_def)
        next
          case False
          from Cons.IH [OF Cons.prems] summ start Inr False show ?thesis
            by (simp add: Let_def)
        qed
      qed
    qed
  qed
qed

lemma alerts_loop_single_within_day:
  assumes "0 \<le> \<Delta>" "\<Delta> < 86400" "0 \<le> u" "u < 1000000"
    and "ev_summary ev = Some title" "event_start ev = Some start"
    and "p start = Inr d" "wall d = now + (\<Delta> * 1000000 + u)"
  shows "alerts_loop cfg p now [ev] [] =
           (if py_round (of_int \<Delta> / 60) \<in> set (MINUTES_LEFT cfg)
            then [\<lparr> summary = title, date = start, minutes_left = py_round (of_int \<Delta> / 60) \<rparr>]
            else [], None)"
proof -
  have "mins_left_of (replace_tzinfo_None d) now = py_round (of_int \<Delta> / 60)"
    using mins_left_within_day [OF assms(1-4), of now] assms(8)
    by (simp add: replace_tzinfo_None_def)
  then show ?thesis
    using assms(5-7) by (simp add: Let_def)
qed

subsection \<open>Notification text\<close>




subsection \<open>Cycles\<close>

lemma monitor_events_quiet:
  assumes "in_sleep_hours (hour_of (now_datetime c)) (SLEEP_HOURS cfg)"
  shows "monitor_events cfg p c = ([CreateService], service_exc c)"
  using assms by (simp add: monitor_events_def split: option.splits)

lemma second_of_reading:
  assumes "0 \<le> S" "S < 60" "0 \<le> u" "u < 1000000"
  shows "second_of (m * 60000000 + S * 1000000 + u) = S"
proof -
  have "(m * 60000000 + S * 1000000 + u) = (m * 60 + S) * 1000000 + u"
    by simp
  then have "(m * 60000000 + S * 1000000 + u) div 1000000 = m * 60 + S"
    using assms by simp
  then show ?thesis
    using assms by (simp add: second_of_def)
qed


section \<open>The claims\<close>

subsection \<open>C1: a failing fetch\<close>

text \<open>
  C1 says that when the list request raises during a cycle, the failure is logged, the
  cycle dispatches nothing and the loop goes on to the next cycle, so that a successful
  cycle can follow at once. The \<^verbatim>\<open>try\<close> of \<^verbatim>\<open>create_daemon\<close> encloses the whole
  \<^verbatim>\<open>while\<close> loop and \<^verbatim>\<open>monitor_events\<close> catches nothing, so the exception ends the
  loop. In the run below the request times out at 12:04 and the cycle of 12:05, which alone
  would have shown a reminder, never happens: the function has returned 1.
\<close>

theorem fetch_failure_stops_loop:
  "create_daemon module_settings (table_parser example_table)
     [\<lparr> service_exc = None, now_datetime = clock_reading 0 12 4 0 0,
        execute_result = Inl (Exception ''TimeoutError'' ''timed out''),
        clock_after = clock_reading 0 12 4 0 300000,
        popen_exc = all_installed \<rparr>,
      \<lparr> service_exc = None, now_datetime = clock_reading 0 12 5 0 0,
        execute_result = Inr (Some [timed_event ''Standup'' ''2019-05-01T12:10:00'']),
        clock_after = clock_reading 0 12 5 0 250000,
        popen_exc = all_installed \<rparr>]
   = ([CreateService, ListEvents, Log ERROR ''Unexpected exception: timed out''], Returned 1)
   \<and> create_daemon module_settings (table_parser example_table)
     [\<lparr> service_exc = None, now_datetime = clock_reading 0 12 5 0 0,
        execute_result = Inr (Some [timed_event ''Standup'' ''2019-05-01T12:10:00'']),
        clock_after = clock_reading 0 12 5 0 250000,
        popen_exc = all_installed \<rparr>]
   = ([CreateService, ListEvents,
       Popen [''notify-send'', ''-t'', ''50000'', ''Upcoming event: Standup'',
              ''In 5 minutes [2019-05-01T12:10:00] -> Standup''],
       Popen [''play'', ''5glasses.ogg''],
       Sleep 60], Running)"
  by code_simp

text \<open>
  C1 as amended: when the list request raises an exception of a subclass of
  \<^verbatim>\<open>Exception\<close> in a cycle outside the sleep hours, the cycle launches nothing, the
  failure is logged once at level \<^verbatim>\<open>ERROR\<close>, and \<^verbatim>\<open>create_daemon\<close> returns 1
  whatever the later cycles would have read: no sleep and no further cycle follows.
\<close>

theorem fetch_failure_ends_daemon:
  assumes "service_exc c = None"
    and "\<not> in_sleep_hours (hour_of (now_datetime c)) (SLEEP_HOURS cfg)"
    and "execute_result c = Inl (Exception cls msg)"
  shows "create_daemon cfg p (c # cs) =
           ([CreateService, ListEvents, Log ERROR (''Unexpected exception: '' @ msg)], Returned 1)"
  using assms by (simp add: monitor_events_def)

theorem fetch_failure_ends_daemon_witness:
  "service_exc
     \<lparr> service_exc = None, now_datetime = clock_reading 0 12 4 0 0,
       execute_result = Inl (Exception ''TimeoutError'' ''timed out''),
       clock_after = clock_reading 0 12 4 0 300000,
        popen_exc = all_installed \<rparr> = None
   \<and> \<not> in_sleep_hours (hour_of (clock_reading 0 12 4 0 0)) (SLEEP_HOURS module_settings)
   \<and> create_daemon module_settings (table_parser example_table)
       [\<lparr> service_exc = None, now_datetime = clock_reading 0 12 4 0 0,
          execute_result = Inl (Exception ''TimeoutError'' ''timed out''),
          clock_after = clock_reading 0 12 4 0 300000,
        popen_exc = all_installed \<rparr>,
        \<lparr> service_exc = None, now_datetime = clock_reading 0 12 5 0 0,
          execute_result = Inr (Some [timed_event ''Standup'' ''2019-05-01T12:10:00'']),
          clock_after = clock_reading 0 12 5 0 250000,
        popen_exc = all_installed \<rparr>]
     = ([CreateService, ListEvents, Log ERROR (''Unexpected exception: '' @ ''timed out'')],
        Returned 1)"
proof -
  let ?c = "\<lparr> service_exc = None, now_datetime = clock_reading 0 12 4 0 0,
              execute_result = Inl (Exception ''TimeoutError'' ''timed out''),
              clock_after = clock_reading 0 12 4 0 300000,
        popen_exc = all_installed \<rparr>"
  have h1: "service_exc ?c = None"
    by simp
  have q: "\<not> in_sleep_hours (hour_of (clock_reading 0 12 4 0 0)) (SLEEP_HOURS module_settings)"
    by code_simp
  then have h2: "\<not> in_sleep_hours (hour_of (now_datetime ?c)) (SLEEP_HOURS module_settings)"
    by simp
  have h3: "execute_result ?c = Inl (Exception ''TimeoutError'' ''timed out'')"
    by simp
  show ?thesis
    using h1 q fetch_failure_ends_daemon [OF h1 h2 h3] by blast
qed

subsection \<open>C2, C3, C10: minutes left\<close>

text \<open>
  C2 says that an event starting \<open>\<Delta> \<ge> 0\<close> seconds after now is included exactly when
  \<open>round(\<Delta>/60)\<close> is one of the offsets. Line 142 reads \<^verbatim>\<open>.seconds\<close> of the difference,
  which is the seconds field of the normalised timedelta and leaves its days out. At noon
  of day 0, with the offsets 1, 5 and 10 of the module, an event that starts at 12:05 of
  day 1 is 86700 seconds or 1445 minutes away; the loop computes 5 and makes an alert.
\<close>

theorem alert_for_event_a_day_ahead:
  "alerts_loop module_settings (table_parser example_table) (clock_reading 0 12 0 0 0)
     [timed_event ''Review'' ''2019-05-02T12:05:00''] []
   = ([\<lparr> summary = ''Review'', date = ''2019-05-02T12:05:00'', minutes_left = 5 \<rparr>], None)
   \<and> clock_reading 1 12 5 0 0 = clock_reading 0 12 0 0 0 + 86700 * 1000000
   \<and> py_round (86700 / 60) = 1445
   \<and> 1445 \<notin> set (MINUTES_LEFT module_settings)"
  by code_simp

text \<open>
  C3 says that an event whose start is in the past is never included. For a start in
  the past the days field of the difference is negative and the seconds field is what
  remains to the next multiple of a day. At 12:05 of day 1 an event that started at 12:10
  of day 0, 86100 seconds ago, and is still going on (the service lists events by their
  end) gets 5 minutes left, and the cycle shows a reminder for it.
\<close>

theorem alert_for_started_event:
  "clock_reading 0 12 10 0 0 < clock_reading 1 12 5 0 0
   \<and> clock_reading 0 12 10 0 0 - clock_reading 1 12 5 0 0 = - 86100 * 1000000
   \<and> monitor_events module_settings (table_parser example_table)
       \<lparr> service_exc = None, now_datetime = clock_reading 1 12 5 0 0,
         execute_result = Inr (Some [timed_event ''Conference'' ''2019-05-01T12:10:00'']),
         clock_after = clock_reading 1 12 5 0 250000,
        popen_exc = all_installed \<rparr>
     = ([CreateService, ListEvents,
         Popen [''notify-send'', ''-t'', ''50000'', ''Upcoming event: Conference'',
                ''In 5 minutes [2019-05-01T12:10:00] -> Conference''],
         Popen [''play'', ''5glasses.ogg'']], None)"
  by code_simp

text \<open>
  C10 says that for every event \<open>\<Delta>\<close> seconds away with \<open>\<Delta>/60\<close> exactly between two
  integers, the minutes left are the even one of the two. The rounding is indeed to even
  (\<open>mins_left_tie_within_day\<close> above, for the starts less than a day ahead: 90 and 150
  seconds both give 2), but the number rounded is the seconds field and not \<open>\<Delta>\<close>: an
  event 86490 seconds away, where \<open>\<Delta>/60 = 1441.5\<close>, gets 2 minutes left and not 1442.
\<close>

theorem tie_for_event_a_day_ahead:
  "mins_left_of (clock_reading 0 12 0 0 0 + 90 * 1000000) (clock_reading 0 12 0 0 0) = 2
   \<and> mins_left_of (clock_reading 0 12 0 0 0 + 150 * 1000000) (clock_reading 0 12 0 0 0) = 2
   \<and> mins_left_of (clock_reading 0 12 0 0 0 + 86490 * 1000000) (clock_reading 0 12 0 0 0) = 2
   \<and> py_round (86490 / 60) = 1442"
  by code_simp

subsection \<open>C4: quiet hours\<close>

text \<open>
  C4: for every hour and every list of windows, the sleep-hours loop skips the cycle
  exactly when some window of the list matches the hour, where a window \<open>(s, e)\<close> with
  \<open>s \<le> e\<close> matches the hours from \<open>s\<close> to \<open>e\<close> and a window with \<open>e < s\<close> matches the
  hours from \<open>s\<close> on and the hours up to \<open>e\<close>. So no hour is quiet for the empty list, and
  a window \<open>(s, s)\<close> matches the hour \<open>s\<close> only.
\<close>

theorem quiet_hours_policy:
  "in_sleep_hours h ws = spec_isQuiet h ws
   \<and> \<not> in_sleep_hours h []
   \<and> in_sleep_hours h [(s, s)] = (h = s)"
  by (auto simp: in_sleep_hours_iff spec_isQuiet_def spec_window_matches_def)

theorem quiet_hours_policy_witness:
  "spec_isQuiet 21 [(20, 6)] \<and> in_sleep_hours 21 [(20, 6)]
   \<and> \<not> spec_isQuiet 10 [(20, 6)] \<and> \<not> in_sleep_hours 10 [(20, 6)]
   \<and> in_sleep_hours 9 [(9, 9)] \<and> \<not> in_sleep_hours 10 [(9, 9)]"
  using quiet_hours_policy [of 21 "[(20, 6)]" 9] quiet_hours_policy [of 10 "[(20, 6)]" 9]
    quiet_hours_policy [of 9 "[]" 9]
  by (simp add: spec_isQuiet_def spec_window_matches_def)

subsection \<open>C5: the sleep to the next minute\<close>

text \<open>
  C5: after a cycle that ends normally, with the clock of line 88 reading second \<open>S\<close> of its
  minute (\<open>0 \<le> S < 60\<close>, any microseconds \<open>u\<close>), the loop sleeps \<open>60 - S\<close> seconds and
  goes on with the next cycle; at \<open>S = 0\<close> that is a sleep of 60 seconds.
\<close>

theorem sleep_to_next_minute:
  assumes "0 \<le> S" "S < 60" "0 \<le> u" "u < 1000000"
    and "clock_after c = m * 60000000 + S * 1000000 + u"
    and "snd (monitor_events cfg p c) = None"
  shows "wait_time_of (clock_after c) = 60 - S
         \<and> create_daemon cfg p (c # cs) =
             (fst (monitor_events cfg p c) @ [Sleep (60 - S)] @ fst (create_daemon cfg p cs),
              snd (create_daemon cfg p cs))"
proof -
  have w: "wait_time_of (clock_after c) = 60 - S"
    using assms(1-5) by (simp add: wait_time_of_def second_of_reading)
  obtain tr where tr: "monitor_events cfg p c = (tr, None)"
    using assms(6) by (cases "monitor_events cfg p c") auto
  show ?thesis
    using w tr by (simp add: case_prod_beta)
qed

theorem sleep_to_next_minute_witness:
  "clock_reading 0 12 5 0 250000 = 725 * 60000000 + 0 * 1000000 + 250000
   \<and> snd (monitor_events module_settings (table_parser example_table)
       \<lparr> service_exc = None, now_datetime = clock_reading 0 12 5 0 0,
         execute_result = Inr (Some [timed_event ''Standup'' ''2019-05-01T12:10:00'']),
         clock_after = clock_reading 0 12 5 0 250000,
        popen_exc = all_installed \<rparr>) = None
   \<and> wait_time_of (clock_reading 0 12 5 0 250000) = 60
   \<and> snd (create_daemon module_settings (table_parser example_table)
       [\<lparr> service_exc = None, now_datetime = clock_reading 0 12 5 0 0,
          execute_result = Inr (Some [timed_event ''Standup'' ''2019-05-01T12:10:00'']),
          clock_after = clock_reading 0 12 5 0 250000,
        popen_exc = all_installed \<rparr>]) = Running"
proof -
  let ?c = "\<lparr> service_exc = None, now_datetime = clock_reading 0 12 5 0 0,
              execute_result = Inr (Some [timed_event ''Standup'' ''2019-05-01T12:10:00'']),
              clock_after = clock_reading 0 12 5 0 250000,
        popen_exc = all_installed \<rparr>"
  have r: "clock_reading 0 12 5 0 250000 = 725 * 60000000 + 0 * 1000000 + 250000"
    by (simp add: clock_reading_def)
  then have h5: "clock_after ?c = 725 * 60000000 + 0 * 1000000 + 250000"
    by simp
  have h6: "snd (monitor_events module_settings (table_parser example_table) ?c) = None"
    by code_simp
  have "wait_time_of (clock_after ?c) = 60 - 0
        \<and> create_daemon module_settings (table_parser example_table) (?c # []) =
            (fst (monitor_events module_settings (table_parser example_table) ?c)
               @ [Sleep (60 - 0)] @ fst (create_daemon module_settings (table_parser example_table) []),
             snd (create_daemon module_settings (table_parser example_table) []))"
    by (rule sleep_to_next_minute [OF _ _ _ _ h5 h6]) simp_all
  then have w: "wait_time_of (clock_after ?c) = 60 - 0"
    and d: "snd (create_daemon module_settings (table_parser example_table) [?c]) =
            snd (create_daemon module_settings (table_parser example_table) [])"
    by (simp_all only: snd_conv)
  from w have "wait_time_of (clock_reading 0 12 5 0 250000) = 60"
    by simp
  moreover from d have "snd (create_daemon module_settings (table_parser example_table) [?c]) = Running"
    by (simp only: create_daemon.simps(1) snd_conv)
  ultimately show ?thesis
    using r h6 by blast
qed

subsection \<open>C6: the notification\<close>



subsection \<open>C7: the audio launch\<close>

text \<open>
  C7 says that every dispatch of a list of alerts that is not empty makes exactly one
  audio-playback invocation. The audio launch is the last statement of
  \<^verbatim>\<open>monitor_events\<close> (line 162) and runs only when the \<^verbatim>\<open>notify-send\<close> launch before
  it returns; nothing catches what that launch raises. On a system without
  \<^verbatim>\<open>notify-send\<close> the dispatch of one alert makes no audio invocation at all, and the
  exception ends the daemon.
\<close>

theorem no_audio_without_notify_send:
  "dispatch module_settings (not_installed ''notify-send'')
     [\<lparr> summary = ''Standup'', date = ''2019-05-01T12:10:00'', minutes_left = 5 \<rparr>]
   = ([Popen [''notify-send'', ''-t'', ''50000'', ''Upcoming event: Standup'',
              ''In 5 minutes [2019-05-01T12:10:00] -> Standup'']],
      Some (file_not_found ''notify-send''))
   \<and> Popen (AUDIO_PLAY_CMD module_settings) \<notin>
       set (fst (dispatch module_settings (not_installed ''notify-send'')
         [\<lparr> summary = ''Standup'', date = ''2019-05-01T12:10:00'', minutes_left = 5 \<rparr>]))
   \<and> create_daemon module_settings (table_parser example_table)
       [\<lparr> service_exc = None, now_datetime = clock_reading 0 12 5 0 0,
          execute_result = Inr (Some [timed_event ''Standup'' ''2019-05-01T12:10:00'']),
          clock_after = clock_reading 0 12 5 0 250000,
          popen_exc = not_installed ''notify-send'' \<rparr>]
     = ([CreateService, ListEvents,
         Popen [''notify-send'', ''-t'', ''50000'', ''Upcoming event: Standup'',
                ''In 5 minutes [2019-05-01T12:10:00] -> Standup''],
         Log ERROR (''Unexpected exception: [Errno 2] No such file or directory: ''
                      @ [CHR 0x27] @ ''notify-send'' @ [CHR 0x27])],
        Returned 1)"
  by code_simp

text \<open>
  C7 as amended: for a list of alerts that is not empty and whose \<^verbatim>\<open>notify-send\<close>
  launch returns, whatever the length of the list, the launches of the dispatch are two:
  the \<^verbatim>\<open>notify-send\<close> command and then, once, the audio command.
\<close>

theorem dispatch_one_audio:
  assumes "alerts \<noteq> []"
    and "popen (notify_cmd cfg alerts) = None"
  shows "\<exists>title body.
           fst (dispatch cfg popen alerts) =
             [Popen [''notify-send'', ''-t'', NOTIFY_TIME_MS cfg, title, body],
              Popen (AUDIO_PLAY_CMD cfg)]"
proof -
  have "fst (dispatch cfg popen alerts) =
          [Popen (notify_cmd cfg alerts), Popen (AUDIO_PLAY_CMD cfg)]"
    using assms by (simp add: dispatch_def)
  moreover have "\<exists>title body.
      notify_cmd cfg alerts = [''notify-send'', ''-t'', NOTIFY_TIME_MS cfg, title, body]"
    by (simp add: notify_cmd_def)
  ultimately show ?thesis
    by auto
qed

theorem dispatch_one_audio_witness:
  "[\<lparr> summary = ''Standup'', date = ''2019-05-01T12:10:00'', minutes_left = 5 \<rparr>] \<noteq> []
   \<and> all_installed (notify_cmd module_settings
         [\<lparr> summary = ''Standup'', date = ''2019-05-01T12:10:00'', minutes_left = 5 \<rparr>]) = None
   \<and> (\<exists>title body.
         fst (dispatch module_settings all_installed
           [\<lparr> summary = ''Standup'', date = ''2019-05-01T12:10:00'', minutes_left = 5 \<rparr>])
         = [Popen [''notify-send'', ''-t'', NOTIFY_TIME_MS module_settings, title, body],
            Popen (AUDIO_PLAY_CMD module_settings)])"
proof -
  let ?as = "[\<lparr> summary = ''Standup'', date = ''2019-05-01T12:10:00'', minutes_left = 5 \<rparr>]"
  have h: "?as \<noteq> []"
    by simp
  have l: "all_installed (notify_cmd module_settings ?as) = None"
    by (simp add: all_installed_def)
  show ?thesis
    using h l dispatch_one_audio [of ?as all_installed module_settings, OF h l] by blast
qed

subsection \<open>C8: nothing happens in the sleep hours\<close>

text \<open>
  C8: in a cycle whose hour lies in a quiet window, the only effect is the construction
  of the service: there is no list request and no process launch, and the result of the
  cycle does not depend on what a request would have returned nor on the parser, so no
  event is fetched and none is matched.
\<close>

theorem quiet_cycle_does_nothing:
  assumes "spec_isQuiet (hour_of (now_datetime c)) (SLEEP_HOURS cfg)"
  shows "fst (monitor_events cfg p c) = [CreateService]
         \<and> ListEvents \<notin> set (fst (monitor_events cfg p c))
         \<and> (\<forall>cmd. Popen cmd \<notin> set (fst (monitor_events cfg p c)))
         \<and> monitor_events cfg p (c\<lparr>execute_result := r\<rparr>) = monitor_events cfg p' c"
proof -
  have q: "in_sleep_hours (hour_of (now_datetime c)) (SLEEP_HOURS cfg)"
    using assms by (simp add: in_sleep_hours_iff spec_isQuiet_def)
  then have q': "in_sleep_hours (hour_of (now_datetime (c\<lparr>execute_result := r\<rparr>))) (SLEEP_HOURS cfg)"
    by simp
  show ?thesis
    by (simp add: monitor_events_quiet [OF q] monitor_events_quiet [OF q'])
qed

theorem quiet_cycle_does_nothing_witness:
  "spec_isQuiet (hour_of (clock_reading 0 21 55 0 0)) (SLEEP_HOURS module_settings)
   \<and> fst (monitor_events module_settings (table_parser example_table)
       \<lparr> service_exc = None, now_datetime = clock_reading 0 21 55 0 0,
         execute_result = Inr (Some [timed_event ''Night shift'' ''2019-05-01T22:00:00'']),
         clock_after = clock_reading 0 21 55 0 250000,
        popen_exc = all_installed \<rparr>) = [CreateService]"
proof -
  let ?c = "\<lparr> service_exc = None, now_datetime = clock_reading 0 21 55 0 0,
              execute_result = Inr (Some [timed_event ''Night shift'' ''2019-05-01T22:00:00'']),
              clock_after = clock_reading 0 21 55 0 250000,
        popen_exc = all_installed \<rparr>"
  have "hour_of (clock_reading 0 21 55 0 0) = 21"
    by code_simp
  then have q: "spec_isQuiet (hour_of (clock_reading 0 21 55 0 0)) (SLEEP_HOURS module_settings)"
    by (simp add: spec_isQuiet_def spec_window_matches_def module_settings_def)
  then have h: "spec_isQuiet (hour_of (now_datetime ?c)) (SLEEP_HOURS module_settings)"
    by simp
  show ?thesis
    using q quiet_cycle_does_nothing [OF h] by blast
qed

subsection \<open>C9: alerts and offsets\<close>

text \<open>
  C9: every alert the matching loop has made when it ends, normally or by an exception,
  has its minutes left among the configured offsets; and the only alerts a cycle hands
  to the dispatch are those of the loop, the one place that makes alerts.
\<close>

theorem alerts_within_offsets:
  "(\<forall>a \<in> set (fst (alerts_loop cfg p now events [])). minutes_left a \<in> set (MINUTES_LEFT cfg))
   \<and> (\<exists>alerts. (\<forall>a \<in> set alerts. minutes_left a \<in> set (MINUTES_LEFT cfg))
         \<and> (fst (monitor_events cfg p c) = [CreateService]
            \<or> fst (monitor_events cfg p c) = [CreateService, ListEvents]
            \<or> fst (monitor_events cfg p c) = [CreateService, ListEvents] @ fst (dispatch cfg (popen_exc c) alerts)))"
proof
  show "\<forall>a \<in> set (fst (alerts_loop cfg p now events [])). minutes_left a \<in> set (MINUTES_LEFT cfg)"
    by (rule alerts_loop_invariant) simp
next
  let ?r = "alerts_loop cfg p (now_datetime c) (get_items (projr (execute_result c))) []"
  have inv: "\<forall>a \<in> set (fst ?r). minutes_left a \<in> set (MINUTES_LEFT cfg)"
    by (rule alerts_loop_invariant) simp
  have "fst (monitor_events cfg p c) = [CreateService]
        \<or> fst (monitor_events cfg p c) = [CreateService, ListEvents]
        \<or> fst (monitor_events cfg p c) = [CreateService, ListEvents] @ fst (dispatch cfg (popen_exc c) (fst ?r))"
    by (cases ?r; cases "dispatch cfg (popen_exc c) (fst ?r)")
      (auto simp: monitor_events_def split: option.splits sum.splits)
  with inv show "\<exists>alerts. (\<forall>a \<in> set alerts. minutes_left a \<in> set (MINUTES_LEFT cfg))
         \<and> (fst (monitor_events cfg p c) = [CreateService]
            \<or> fst (monitor_events cfg p c) = [CreateService, ListEvents]
            \<or> fst (monitor_events cfg p c) = [CreateService, ListEvents] @ fst (dispatch cfg (popen_exc c) alerts))"
    by blast
qed

theorem alerts_within_offsets_witness:
  "fst (alerts_loop module_settings (table_parser example_table) (clock_reading 0 12 5 0 0)
          [timed_event ''Standup'' ''2019-05-01T12:10:00'',
           timed_event ''Lunch'' ''2019-05-01T12:15:00-03:00'',
           timed_event ''Review'' ''2019-05-02T12:01:30''] [])
   = [\<lparr> summary = ''Standup'', date = ''2019-05-01T12:10:00'', minutes_left = 5 \<rparr>,
      \<lparr> summary = ''Lunch'', date = ''2019-05-01T12:15:00-03:00'', minutes_left = 10 \<rparr>]
   \<and> 5 \<in> set (MINUTES_LEFT module_settings)
   \<and> 10 \<in> set (MINUTES_LEFT module_settings)"
proof -
  let ?evs = "[timed_event ''Standup'' ''2019-05-01T12:10:00'',
               timed_event ''Lunch'' ''2019-05-01T12:15:00-03:00'',
               timed_event ''Review'' ''2019-05-02T12:01:30'']"
  let ?loop = "alerts_loop module_settings (table_parser example_table)
                 (clock_reading 0 12 5 0 0) ?evs []"
  have e: "fst ?loop
   = [\<lparr> summary = ''Standup'', date = ''2019-05-01T12:10:00'', minutes_left = 5 \<rparr>,
      \<lparr> summary = ''Lunch'', date = ''2019-05-01T12:15:00-03:00'', minutes_left = 10 \<rparr>]"
    by code_simp
  have "\<forall>a \<in> set (fst ?loop). minutes_left a \<in> set (MINUTES_LEFT module_settings)"
    using alerts_within_offsets [of module_settings "table_parser example_table"
        "clock_reading 0 12 5 0 0" ?evs]
    by (rule conjunct1)
  then have "5 \<in> set (MINUTES_LEFT module_settings)"
    and "10 \<in> set (MINUTES_LEFT module_settings)"
    unfolding e by simp_all
  with e show ?thesis
    by blast
qed

end
